theory Spec2Isabelle
  imports Main
begin

section \<open>Values exchanged with the worker and the audio worklet\<close>

text \<open>
  The host page of \<^verbatim>\<open>public/main_webworkers.js\<close> talks to an emulator worker and to an
  audio worklet by message passing.  A reply on a call channel is an arbitrary
  structured-clonable JavaScript value; the part of the value space that decides what
  \<^verbatim>\<open>rpc\<close> does with it is modelled here.  Numbers are the integral ones (the counters of
  this file stay far below \<open>2^53\<close>, where doubles are exact) together with \<open>NaN\<close>.
\<close>

datatype js_value =
    JSUndefined
  | JSNull
  | JSBoolean bool
  | JSNumber int
  | JSNaN
  | JSString string
  | JSObject "(string \<times> js_value) list"

datatype js_error = TypeError | DOMException

text \<open>Truthiness, as tested by \<^verbatim>\<open>if (data.error)\<close>.\<close>

fun ToBoolean :: "js_value \<Rightarrow> bool" where
  "ToBoolean JSUndefined = False"
| "ToBoolean JSNull = False"
| "ToBoolean (JSBoolean b) = b"
| "ToBoolean (JSNumber n) = (n \<noteq> 0)"
| "ToBoolean JSNaN = False"
| "ToBoolean (JSString str) = (str \<noteq> [])"
| "ToBoolean (JSObject fields) = True"

text \<open>
  Reading the member \<^verbatim>\<open>error\<close> or \<^verbatim>\<open>result\<close> of a reply: \<^verbatim>\<open>undefined\<close> and \<^verbatim>\<open>null\<close> have no
  members (a TypeError is thrown), an object yields the stored member or \<^verbatim>\<open>undefined\<close>,
  and a primitive has neither member.
\<close>

fun get_member :: "js_value \<Rightarrow> string \<Rightarrow> js_error + js_value" where
  "get_member JSUndefined key = Inl TypeError"
| "get_member JSNull key = Inl TypeError"
| "get_member (JSObject fields) key =
     Inr (case map_of fields key of None \<Rightarrow> JSUndefined | Some v \<Rightarrow> v)"
| "get_member v key = Inr JSUndefined"

type_synonym image_buffer = "nat list"  \<comment> \<open>raw pixel bytes\<close>
type_synonym audio_buffer = "int list"  \<comment> \<open>a batch of samples; only its length is used\<close>
type_synonym port = nat                 \<comment> \<open>identity of a \<^verbatim>\<open>MessageChannel\<close>\<close>

text \<open>Messages pushed by the worker to \<^verbatim>\<open>worker.onmessage\<close>, by their \<^verbatim>\<open>type\<close> tag.\<close>

datatype worker_message =
    Init
  | DeliverFrame image_buffer audio_buffer
  | OtherWorkerMessage

text \<open>Messages posted by the audio worklet node to \<^verbatim>\<open>handle_audio_message\<close>.\<close>

datatype audio_message =
    SamplesPlayed int
  | OtherAudioMessage

text \<open>Messages the host posts to the worker.\<close>

datatype worker_request =
    RequestFrame
  | Rpc string "js_value list" port

datatype audio_node = AudioWorkletNode

section \<open>Global application state and observable actions\<close>

text \<open>
  Every statement of a handler that writes a global or calls out of the page appends one
  entry to a chronological trace, in the order the statements are executed.
\<close>

datatype action =
    Assign_g_game_pixels "image_buffer option"
  | Assign_g_pending_frames int
  | Assign_g_frames_since_last_fps_count int
  | Assign_g_audio_samples_buffered int
  | Assign_g_nes_audio_node
  | WorkerPostMessage worker_request
  | AudioPostSamples audio_buffer
  | ConsoleLog string
  | PutImageData image_buffer
  | RequestAnimationFrame
  | ShowFps int
  | Settle port
  | Uncaught js_error

datatype promise = Pending | Resolved js_value | Rejected js_value

record state =
  g_pending_frames :: int
  g_frames_since_last_fps_count :: int
  g_game_pixels :: "image_buffer option"
  g_audio_samples_buffered :: int
  g_nes_audio_node :: "audio_node option"
  calls :: "port \<Rightarrow> promise option"
  next_port :: port
  trace :: "action list"

definition initial_state :: state where
  "initial_state =
     \<lparr> g_pending_frames = 0,
       g_frames_since_last_fps_count = 0,
       g_game_pixels = None,
       g_audio_samples_buffered = 0,
       g_nes_audio_node = None,
       calls = (\<lambda>p. None),
       next_port = 0,
       trace = [] \<rparr>"

definition emit :: "action \<Rightarrow> state \<Rightarrow> state" where
  "emit a s = s\<lparr>trace := trace s @ [a]\<rparr>"

definition assign_g_game_pixels :: "image_buffer option \<Rightarrow> state \<Rightarrow> state" where
  "assign_g_game_pixels v s = emit (Assign_g_game_pixels v) (s\<lparr>g_game_pixels := v\<rparr>)"

definition assign_g_pending_frames :: "int \<Rightarrow> state \<Rightarrow> state" where
  "assign_g_pending_frames v s = emit (Assign_g_pending_frames v) (s\<lparr>g_pending_frames := v\<rparr>)"

definition assign_g_frames_since_last_fps_count :: "int \<Rightarrow> state \<Rightarrow> state" where
  "assign_g_frames_since_last_fps_count v s =
     emit (Assign_g_frames_since_last_fps_count v) (s\<lparr>g_frames_since_last_fps_count := v\<rparr>)"

definition assign_g_audio_samples_buffered :: "int \<Rightarrow> state \<Rightarrow> state" where
  "assign_g_audio_samples_buffered v s =
     emit (Assign_g_audio_samples_buffered v) (s\<lparr>g_audio_samples_buffered := v\<rparr>)"

section \<open>The call channel\<close>

text \<open>
  \<^verbatim>\<open>rpc(task, args)\<close> creates a promise and a fresh \<^verbatim>\<open>MessageChannel\<close>, installs the reply
  handler on \<^verbatim>\<open>port1\<close> and posts the request with \<^verbatim>\<open>port2\<close> to the worker.  The promise is
  kept in \<open>calls\<close> under the channel's identity, which is also the handle returned to the
  caller.
\<close>

definition rpc :: "string \<Rightarrow> js_value list \<Rightarrow> state \<Rightarrow> state \<times> port" where
  "rpc task args s =
     (let channel = next_port s;
          s = s\<lparr>next_port := Suc channel, calls := (calls s)(channel \<mapsto> Pending)\<rparr>;
          s = emit (WorkerPostMessage (Rpc task args channel)) s
      in (s, channel))"

text \<open>\<^verbatim>\<open>resolve\<close> and \<^verbatim>\<open>reject\<close> of a promise: only a pending promise is settled.\<close>

definition settle :: "port \<Rightarrow> promise \<Rightarrow> state \<Rightarrow> state" where
  "settle channel outcome s =
     (case calls s channel of
        Some Pending \<Rightarrow> emit (Settle channel) (s\<lparr>calls := (calls s)(channel \<mapsto> outcome)\<rparr>)
      | _ \<Rightarrow> s)"

text \<open>The handler \<^verbatim>\<open>channel.port1.onmessage\<close> installed by \<^verbatim>\<open>rpc\<close>, applied to \<^verbatim>\<open>e.data\<close>.\<close>

definition port1_onmessage :: "port \<Rightarrow> js_value \<Rightarrow> state \<Rightarrow> state \<times> js_error option" where
  "port1_onmessage channel data s =
     (case get_member data ''error'' of
        Inl err \<Rightarrow> (s, Some err)
      | Inr error \<Rightarrow>
          if ToBoolean error then (settle channel (Rejected error) s, None)
          else (case get_member data ''result'' of
                  Inl err \<Rightarrow> (s, Some err)
                | Inr result \<Rightarrow> (settle channel (Resolved result) s, None)))"

section \<open>Handlers of the host page\<close>

text \<open>
  \<^verbatim>\<open>onready\<close> up to its first \<^verbatim>\<open>await\<close>: the echo call is issued.  What follows the
  \<^verbatim>\<open>await\<close>s (audio bring-up, then the registration of the render loop and of the two
  timers) reaches this model as the events of section \<open>Event loop\<close>.
\<close>

definition onready :: "state \<Rightarrow> state" where
  "onready s = fst (rpc ''echo'' [JSString ''Hello World!''] s)"

text \<open>
  The part of \<^verbatim>\<open>init_audio_context\<close> after the worklet module is loaded: the node is
  created and stored in \<^verbatim>\<open>g_nes_audio_node\<close>.
\<close>

definition init_audio_context :: "state \<Rightarrow> state" where
  "init_audio_context s = emit Assign_g_nes_audio_node (s\<lparr>g_nes_audio_node := Some AudioWorkletNode\<rparr>)"

definition worker_onmessage :: "worker_message \<Rightarrow> state \<Rightarrow> state \<times> js_error option" where
  "worker_onmessage msg s =
     (case msg of
        Init \<Rightarrow> (onready s, None)
      | DeliverFrame image_buffer audio_buffer \<Rightarrow>
          (let s = assign_g_game_pixels (Some image_buffer) s;
               s = assign_g_pending_frames (g_pending_frames s - 1) s;
               s = assign_g_frames_since_last_fps_count (g_frames_since_last_fps_count s + 1) s
           in if g_audio_samples_buffered s < 8192 then
                (case g_nes_audio_node s of
                   None \<Rightarrow> (s, Some TypeError)
                 | Some node \<Rightarrow>
                     (let s = emit (AudioPostSamples audio_buffer) s;
                          s = assign_g_audio_samples_buffered
                                (g_audio_samples_buffered s + int (length audio_buffer)) s
                      in (s, None)))
              else
                (emit (ConsoleLog ''Audio overrun; are we going too fast? Samples dropped.'') s,
                 None))
      | OtherWorkerMessage \<Rightarrow> (s, None))"

definition handle_audio_message :: "audio_message \<Rightarrow> state \<Rightarrow> state" where
  "handle_audio_message msg s =
     (case msg of
        SamplesPlayed count \<Rightarrow>
          assign_g_audio_samples_buffered (g_audio_samples_buffered s - count) s
      | OtherAudioMessage \<Rightarrow> s)"

definition schedule_frames_at_top_speed :: "state \<Rightarrow> state" where
  "schedule_frames_at_top_speed s =
     (if g_pending_frames s < 10 then
        (let s = emit (WorkerPostMessage RequestFrame) s;
             s = assign_g_pending_frames (g_pending_frames s + 1) s
         in s)
      else s)"

text \<open>
  \<^verbatim>\<open>renderLoop\<close>.  \<^verbatim>\<open>new ImageData(pixels, 256, 240)\<close> accepts exactly the buffers of
  \<open>4 * 256 * 240\<close> bytes and throws otherwise, before anything is drawn, cleared or
  rescheduled.  The page is taken to contain the canvas \<^verbatim>\<open>#pixels\<close>; the lookup of the
  canvas and the smoothing flag of its context are not part of the state.
\<close>

definition renderLoop :: "state \<Rightarrow> state \<times> js_error option" where
  "renderLoop s =
     (case g_game_pixels s of
        Some pixels \<Rightarrow>
          if length pixels \<noteq> 4 * 256 * 240 then (s, Some DOMException)
          else
            (let s = emit (PutImageData pixels) s;
                 s = assign_g_game_pixels None s;
                 s = emit RequestAnimationFrame s
             in (s, None))
      | None \<Rightarrow> (emit RequestAnimationFrame s, None))"

definition compute_fps :: "state \<Rightarrow> state" where
  "compute_fps s =
     (let s = emit (ShowFps (g_frames_since_last_fps_count s)) s;
          s = assign_g_frames_since_last_fps_count 0 s
      in s)"

section \<open>Event loop\<close>

text \<open>
  All handlers run on one thread, one at a time.  An event is one invocation of a
  handler by the browser; an exception that escapes a handler is reported and the loop
  goes on with the globals as the handler left them.  Any event may come at any time:
  this includes every schedule the page can see (the timers and the render loop are
  registered by \<^verbatim>\<open>onready\<close> once the audio node exists).  A message on a call channel is
  delivered only if \<^verbatim>\<open>rpc\<close> has created the channel, and a message of the audio worklet
  only once \<^verbatim>\<open>init_audio_context\<close> has installed \<^verbatim>\<open>handle_audio_message\<close> on the node.
\<close>

datatype event =
    SchedulerTick
  | WorkerMessage worker_message
  | AudioMessage audio_message
  | AnimationFrame
  | FpsTimer
  | PortMessage port js_value
  | RpcCall string "js_value list"
  | AudioContextReady

definition dispatch :: "event \<Rightarrow> state \<Rightarrow> state \<times> js_error option" where
  "dispatch ev s =
     (case ev of
        SchedulerTick \<Rightarrow> (schedule_frames_at_top_speed s, None)
      | WorkerMessage msg \<Rightarrow> worker_onmessage msg s
      | AudioMessage msg \<Rightarrow>
          (case g_nes_audio_node s of
             None \<Rightarrow> (s, None)
           | Some node \<Rightarrow> (handle_audio_message msg s, None))
      | AnimationFrame \<Rightarrow> renderLoop s
      | FpsTimer \<Rightarrow> (compute_fps s, None)
      | PortMessage channel data \<Rightarrow>
          (case calls s channel of
             None \<Rightarrow> (s, None)
           | Some p \<Rightarrow> port1_onmessage channel data s)
      | RpcCall task args \<Rightarrow> (fst (rpc task args s), None)
      | AudioContextReady \<Rightarrow> (init_audio_context s, None))"

definition step :: "event \<Rightarrow> state \<Rightarrow> state" where
  "step ev s =
     (case dispatch ev s of
        (s', None) \<Rightarrow> s'
      | (s', Some err) \<Rightarrow> emit (Uncaught err) s')"

fun run :: "event list \<Rightarrow> state \<Rightarrow> state" where
  "run [] s = s"
| "run (ev # evs) s = run evs (step ev s)"

text \<open>What the trace shows to the outside.\<close>

fun frame_requests :: "action list \<Rightarrow> nat" where
  "frame_requests [] = 0"
| "frame_requests (WorkerPostMessage RequestFrame # as) = Suc (frame_requests as)"
| "frame_requests (a # as) = frame_requests as"

fun presented :: "action list \<Rightarrow> image_buffer list" where
  "presented [] = []"
| "presented (PutImageData pixels # as) = pixels # presented as"
| "presented (a # as) = presented as"

fun forwarded :: "action list \<Rightarrow> audio_buffer list" where
  "forwarded [] = []"
| "forwarded (AudioPostSamples samples # as) = samples # forwarded as"
| "forwarded (a # as) = forwarded as"

fun deliveries :: "event list \<Rightarrow> nat" where
  "deliveries [] = 0"
| "deliveries (WorkerMessage (DeliverFrame image_buffer audio_buffer) # evs) = Suc (deliveries evs)"
| "deliveries (ev # evs) = deliveries evs"

text \<open>The pixel buffers of the \<^verbatim>\<open>deliverFrame\<close> messages of a run, in the order they arrive.\<close>

fun delivered_frames :: "event list \<Rightarrow> image_buffer list" where
  "delivered_frames [] = []"
| "delivered_frames (WorkerMessage (DeliverFrame image_buffer audio_buffer) # evs) =
     image_buffer # delivered_frames evs"
| "delivered_frames (ev # evs) = delivered_frames evs"


text \<open>
  Two states agree off the sink when they differ at most in the content of
  \<^verbatim>\<open>g_game_pixels\<close> and in trace entries other than presented frames.
\<close>

definition agree_off_sink :: "state \<Rightarrow> state \<Rightarrow> bool" where
  "agree_off_sink s t \<longleftrightarrow>
     g_pending_frames s = g_pending_frames t
     \<and> g_frames_since_last_fps_count s = g_frames_since_last_fps_count t
     \<and> g_audio_samples_buffered s = g_audio_samples_buffered t
     \<and> g_nes_audio_node s = g_nes_audio_node t
     \<and> calls s = calls t
     \<and> next_port s = next_port t
     \<and> presented (trace s) = presented (trace t)"

section \<open>Basic facts\<close>

lemmas handler_defs =
  emit_def assign_g_game_pixels_def assign_g_pending_frames_def
  assign_g_frames_since_last_fps_count_def assign_g_audio_samples_buffered_def
  rpc_def settle_def port1_onmessage_def onready_def init_audio_context_def
  worker_onmessage_def handle_audio_message_def schedule_frames_at_top_speed_def
  renderLoop_def compute_fps_def dispatch_def step_def Let_def

lemma frame_requests_append:
  "frame_requests (xs @ ys) = frame_requests xs + frame_requests ys"
  by (induction xs rule: frame_requests.induct) simp_all

lemma presented_append:
  "presented (xs @ ys) = presented xs @ presented ys"
  by (induction xs rule: presented.induct) simp_all

lemma forwarded_append:
  "forwarded (xs @ ys) = forwarded xs @ forwarded ys"
  by (induction xs rule: forwarded.induct) simp_all

lemma deliveries_Cons: "deliveries (ev # evs) = deliveries [ev] + deliveries evs"
  by (cases "(ev # evs)" rule: deliveries.cases) simp_all

lemma run_append: "run (xs @ ys) s = run ys (run xs s)"
  by (induction xs arbitrary: s) simp_all

section \<open>Frame request credit\<close>

text \<open>
  Every event changes \<^verbatim>\<open>g_pending_frames\<close> by the number of frame requests it posts minus
  the number of frames it delivers.
\<close>

lemma step_balance:
  "g_pending_frames (step ev s) - int (frame_requests (trace (step ev s))) + int (deliveries [ev])
     = g_pending_frames s - int (frame_requests (trace s))"
  by (cases ev)
     (auto simp add: handler_defs frame_requests_append
           split: option.splits worker_message.splits audio_message.splits sum.splits
                  promise.splits)

lemma run_balance:
  "g_pending_frames (run evs s) - int (frame_requests (trace (run evs s))) + int (deliveries evs)
     = g_pending_frames s - int (frame_requests (trace s))"
proof (induction evs arbitrary: s)
  case Nil
  show ?case by simp
next
  case (Cons ev evs)
  have "g_pending_frames (run (ev # evs) s) - int (frame_requests (trace (run (ev # evs) s)))
          + int (deliveries (ev # evs))
        = (g_pending_frames (run evs (step ev s)) - int (frame_requests (trace (run evs (step ev s))))
          + int (deliveries evs)) + int (deliveries [ev])"
    by (simp add: deliveries_Cons [of ev evs])
  also have "\<dots> = g_pending_frames (step ev s) - int (frame_requests (trace (step ev s)))
          + int (deliveries [ev])"
    by (simp add: Cons.IH)
  also have "\<dots> = g_pending_frames s - int (frame_requests (trace s))"
    by (rule step_balance)
  finally show ?case .
qed

lemma step_cap: "g_pending_frames s \<le> 10 \<Longrightarrow> g_pending_frames (step ev s) \<le> 10"
  by (cases ev)
     (auto simp add: handler_defs
           split: option.splits worker_message.splits audio_message.splits sum.splits
                  promise.splits)

lemma run_cap: "g_pending_frames s \<le> 10 \<Longrightarrow> g_pending_frames (run evs s) \<le> 10"
  by (induction evs arbitrary: s) (simp_all add: step_cap)

text \<open>
  C1, as the code has it.  From the initial state and after any sequence of events
  (scheduler ticks, frame deliveries and every other handler invocation),
  \<^verbatim>\<open>g_pending_frames\<close> is at most 10, and it equals the number of frame requests posted to
  the worker minus the number of \<^verbatim>\<open>deliverFrame\<close> messages processed.  It is therefore
  non-negative whenever the deliveries do not outnumber the posted requests, that is,
  whenever every delivery answers an earlier request.  A scheduler tick increments the
  counter only when it is below 10, and a delivery decrements it by exactly 1 in every
  state.
\<close>

theorem pending_frames_accounting:
  "g_pending_frames (run evs initial_state) \<le> 10
   \<and> g_pending_frames (run evs initial_state)
       = int (frame_requests (trace (run evs initial_state))) - int (deliveries evs)
   \<and> (deliveries evs \<le> frame_requests (trace (run evs initial_state))
        \<longrightarrow> 0 \<le> g_pending_frames (run evs initial_state))
   \<and> g_pending_frames (step SchedulerTick s)
       = (if g_pending_frames s < 10 then g_pending_frames s + 1 else g_pending_frames s)
   \<and> g_pending_frames (step (WorkerMessage (DeliverFrame image_buffer audio_buffer)) s)
       = g_pending_frames s - 1"
proof -
  have cap: "g_pending_frames (run evs initial_state) \<le> 10"
    by (rule run_cap) (simp add: initial_state_def)
  have bal: "g_pending_frames (run evs initial_state)
       = int (frame_requests (trace (run evs initial_state))) - int (deliveries evs)"
    using run_balance [of evs initial_state] by (simp add: initial_state_def)
  have tick: "g_pending_frames (step SchedulerTick s)
       = (if g_pending_frames s < 10 then g_pending_frames s + 1 else g_pending_frames s)"
    by (simp add: handler_defs)
  have deliver: "g_pending_frames (step (WorkerMessage (DeliverFrame image_buffer audio_buffer)) s)
       = g_pending_frames s - 1"
    by (simp add: handler_defs split: option.splits)
  from cap bal tick deliver show ?thesis by simp
qed

theorem pending_frames_accounting_witness:
  "deliveries [SchedulerTick, WorkerMessage (DeliverFrame [] [])]
     \<le> frame_requests (trace (run [SchedulerTick, WorkerMessage (DeliverFrame [] [])] initial_state))
   \<and> g_pending_frames (run [SchedulerTick, WorkerMessage (DeliverFrame [] [])] initial_state) = 0"
  using pending_frames_accounting
          [where evs = "[SchedulerTick, WorkerMessage (DeliverFrame [] [])]"
             and s = initial_state and image_buffer = "[]" and audio_buffer = "[]"]
  by (simp add: handler_defs initial_state_def)

text \<open>
  The lower bound does not hold for every sequence of ticks and deliveries: a single
  delivery processed in the initial state leaves the counter at \<open>-1\<close>.
\<close>

theorem pending_frames_counterexample:
  "\<not> (0 \<le> g_pending_frames (run [WorkerMessage (DeliverFrame [] [])] initial_state)
      \<and> g_pending_frames (run [WorkerMessage (DeliverFrame [] [])] initial_state) \<le> 10)"
  by (simp add: handler_defs initial_state_def)

text \<open>
  C5.  A scheduler tick with \<^verbatim>\<open>g_pending_frames < 10\<close> posts exactly one \<^verbatim>\<open>requestFrame\<close>
  message and then increments the counter, changing nothing else; a tick with the counter
  at 10 or more leaves the whole state as it is.  Twelve ticks from the initial state,
  with no delivery in between, post ten requests and leave the counter at 10: the ten
  requests are posted by the first ten ticks, and the eleventh and twelfth tick change
  nothing.
\<close>

theorem scheduler_tick:
  "(g_pending_frames s < 10 \<longrightarrow>
      schedule_frames_at_top_speed s
        = s\<lparr>g_pending_frames := g_pending_frames s + 1,
             trace := trace s @ [WorkerPostMessage RequestFrame,
                                 Assign_g_pending_frames (g_pending_frames s + 1)]\<rparr>)
   \<and> (\<not> g_pending_frames s < 10 \<longrightarrow> schedule_frames_at_top_speed s = s)
   \<and> frame_requests (trace (run (replicate 10 SchedulerTick) initial_state)) = 10
   \<and> frame_requests (trace (run (replicate 12 SchedulerTick) initial_state)) = 10
   \<and> g_pending_frames (run (replicate 12 SchedulerTick) initial_state) = 10
   \<and> run (replicate 11 SchedulerTick) initial_state = run (replicate 10 SchedulerTick) initial_state
   \<and> run (replicate 12 SchedulerTick) initial_state = run (replicate 11 SchedulerTick) initial_state"
  by (simp add: handler_defs initial_state_def numeral_eq_Suc)

theorem scheduler_tick_witness:
  "(g_pending_frames initial_state < 10
    \<and> trace (schedule_frames_at_top_speed initial_state)
        = [WorkerPostMessage RequestFrame, Assign_g_pending_frames 1]
    \<and> g_pending_frames (schedule_frames_at_top_speed initial_state) = 1)
   \<and> (\<not> g_pending_frames (initial_state\<lparr>g_pending_frames := 10\<rparr>) < 10
    \<and> schedule_frames_at_top_speed (initial_state\<lparr>g_pending_frames := 10\<rparr>)
        = initial_state\<lparr>g_pending_frames := 10\<rparr>)"
  using scheduler_tick [where s = initial_state]
        scheduler_tick [where s = "initial_state\<lparr>g_pending_frames := 10\<rparr>"]
  by (simp add: initial_state_def)

text \<open>
  C10.  Processing a \<^verbatim>\<open>deliverFrame\<close> message decrements \<^verbatim>\<open>g_pending_frames\<close> by exactly 1
  in every state, with no guard against underflow: from a state with the counter at 0
  the handler leaves it at \<open>-1\<close>.
\<close>

theorem deliverFrame_decrement_unguarded:
  "g_pending_frames (fst (worker_onmessage (DeliverFrame image_buffer audio_buffer) s))
     = g_pending_frames s - 1
   \<and> (g_pending_frames s = 0 \<longrightarrow>
        g_pending_frames (fst (worker_onmessage (DeliverFrame image_buffer audio_buffer) s)) = - 1)"
  by (simp add: handler_defs split: option.splits)

theorem deliverFrame_decrement_unguarded_witness:
  "g_pending_frames initial_state = 0
   \<and> g_pending_frames (fst (worker_onmessage (DeliverFrame [] []) initial_state)) = - 1"
  using deliverFrame_decrement_unguarded
          [where s = initial_state and image_buffer = "[]" and audio_buffer = "[]"]
  by (simp add: initial_state_def)

section \<open>Frame delivery\<close>

text \<open>
  C8.  The handler of a \<^verbatim>\<open>deliverFrame\<close> message performs, in this order: the store of the
  pixel buffer into \<^verbatim>\<open>g_game_pixels\<close>, whatever the variable held; the decrement of
  \<^verbatim>\<open>g_pending_frames\<close> by 1; the increment of \<^verbatim>\<open>g_frames_since_last_fps_count\<close> by 1; and
  only then the audio gate, which forwards the batch and adds its length to
  \<^verbatim>\<open>g_audio_samples_buffered\<close>, or logs the overrun.  The first three effects are in place
  also when the gate fails because no audio node exists yet.
\<close>

theorem deliverFrame_effect_order:
  "trace (fst (worker_onmessage (DeliverFrame image_buffer audio_buffer) s))
     = trace s
       @ [Assign_g_game_pixels (Some image_buffer),
          Assign_g_pending_frames (g_pending_frames s - 1),
          Assign_g_frames_since_last_fps_count (g_frames_since_last_fps_count s + 1)]
       @ (if g_audio_samples_buffered s < 8192 then
            (case g_nes_audio_node s of
               None \<Rightarrow> []
             | Some node \<Rightarrow>
                 [AudioPostSamples audio_buffer,
                  Assign_g_audio_samples_buffered
                    (g_audio_samples_buffered s + int (length audio_buffer))])
          else [ConsoleLog ''Audio overrun; are we going too fast? Samples dropped.''])
   \<and> g_game_pixels (fst (worker_onmessage (DeliverFrame image_buffer audio_buffer) s))
       = Some image_buffer
   \<and> g_pending_frames (fst (worker_onmessage (DeliverFrame image_buffer audio_buffer) s))
       = g_pending_frames s - 1
   \<and> g_frames_since_last_fps_count (fst (worker_onmessage (DeliverFrame image_buffer audio_buffer) s))
       = g_frames_since_last_fps_count s + 1"
  by (simp add: handler_defs split: option.splits)

theorem deliverFrame_effect_order_witness:
  "trace (fst (worker_onmessage (DeliverFrame [1, 2] [5, 6, 7])
                (initial_state\<lparr>g_game_pixels := Some [9],
                               g_nes_audio_node := Some AudioWorkletNode\<rparr>)))
     = [Assign_g_game_pixels (Some [1, 2]),
        Assign_g_pending_frames (- 1),
        Assign_g_frames_since_last_fps_count 1,
        AudioPostSamples [5, 6, 7],
        Assign_g_audio_samples_buffered 3]
   \<and> g_game_pixels (fst (worker_onmessage (DeliverFrame [1, 2] [5, 6, 7])
                (initial_state\<lparr>g_game_pixels := Some [9],
                               g_nes_audio_node := Some AudioWorkletNode\<rparr>)))
     = Some [1, 2]"
  using deliverFrame_effect_order
          [where s = "initial_state\<lparr>g_game_pixels := Some [9],
                                     g_nes_audio_node := Some AudioWorkletNode\<rparr>"
             and image_buffer = "[1, 2]" and audio_buffer = "[5, 6, 7]"]
  by (simp add: initial_state_def)

section \<open>Audio backpressure gate\<close>

text \<open>
  C2, as the code has it.  When a sample batch arrives with
  \<^verbatim>\<open>g_audio_samples_buffered < 8192\<close> and the audio node (the sink of the batch) has been
  created, the whole batch is posted to the node and the counter grows by exactly the
  length of the batch.  In every other case, that is, when the counter is 8192 or more
  or when \<^verbatim>\<open>g_nes_audio_node\<close> is still \<^verbatim>\<open>null\<close>, nothing is posted and the counter keeps
  its value.  The state has no queue in which a batch could be kept for later.
\<close>

theorem audio_gate_forward_or_drop:
  "(g_audio_samples_buffered s < 8192 \<and> g_nes_audio_node s \<noteq> None \<longrightarrow>
      forwarded (trace (fst (worker_onmessage (DeliverFrame image_buffer audio_buffer) s)))
        = forwarded (trace s) @ [audio_buffer]
      \<and> g_audio_samples_buffered (fst (worker_onmessage (DeliverFrame image_buffer audio_buffer) s))
        = g_audio_samples_buffered s + int (length audio_buffer))
   \<and> (\<not> (g_audio_samples_buffered s < 8192 \<and> g_nes_audio_node s \<noteq> None) \<longrightarrow>
      forwarded (trace (fst (worker_onmessage (DeliverFrame image_buffer audio_buffer) s)))
        = forwarded (trace s)
      \<and> g_audio_samples_buffered (fst (worker_onmessage (DeliverFrame image_buffer audio_buffer) s))
        = g_audio_samples_buffered s)"
  by (cases "g_nes_audio_node s") (simp_all add: handler_defs forwarded_append)

theorem audio_gate_forward_or_drop_witness:
  "(g_audio_samples_buffered (init_audio_context initial_state) < 8192
    \<and> g_nes_audio_node (init_audio_context initial_state) \<noteq> None
    \<and> forwarded (trace (fst (worker_onmessage (DeliverFrame [] [5, 6, 7])
                                (init_audio_context initial_state)))) = [[5, 6, 7]]
    \<and> g_audio_samples_buffered (fst (worker_onmessage (DeliverFrame [] [5, 6, 7])
                                (init_audio_context initial_state))) = 3)
   \<and> (\<not> (g_audio_samples_buffered
            (init_audio_context initial_state\<lparr>g_audio_samples_buffered := 8192\<rparr>) < 8192
          \<and> g_nes_audio_node
            (init_audio_context initial_state\<lparr>g_audio_samples_buffered := 8192\<rparr>) \<noteq> None)
    \<and> forwarded (trace (fst (worker_onmessage (DeliverFrame [] [5, 6, 7])
             (init_audio_context initial_state\<lparr>g_audio_samples_buffered := 8192\<rparr>)))) = []
    \<and> g_audio_samples_buffered (fst (worker_onmessage (DeliverFrame [] [5, 6, 7])
             (init_audio_context initial_state\<lparr>g_audio_samples_buffered := 8192\<rparr>))) = 8192)
   \<and> (\<not> (g_audio_samples_buffered initial_state < 8192 \<and> g_nes_audio_node initial_state \<noteq> None)
    \<and> forwarded (trace (fst (worker_onmessage (DeliverFrame [] [5, 6, 7]) initial_state))) = []
    \<and> g_audio_samples_buffered (fst (worker_onmessage (DeliverFrame [] [5, 6, 7]) initial_state))
        = 0)"
  using audio_gate_forward_or_drop
          [where s = "init_audio_context initial_state"
             and image_buffer = "[]" and audio_buffer = "[5, 6, 7]"]
        audio_gate_forward_or_drop
          [where s = "init_audio_context initial_state\<lparr>g_audio_samples_buffered := 8192\<rparr>"
             and image_buffer = "[]" and audio_buffer = "[5, 6, 7]"]
        audio_gate_forward_or_drop
          [where s = initial_state and image_buffer = "[]" and audio_buffer = "[5, 6, 7]"]
  by (simp add: initial_state_def init_audio_context_def emit_def)

text \<open>
  A counter below 8192 is not enough for a batch to be forwarded.  In the initial state
  the counter is 0 and no audio node exists: the handler fails with a TypeError when it
  reaches for the node, nothing is forwarded and the counter stays at 0.
\<close>

theorem audio_gate_no_node_counterexample:
  "g_audio_samples_buffered initial_state < 8192
   \<and> snd (worker_onmessage (DeliverFrame [] [5, 6, 7]) initial_state) = Some TypeError
   \<and> forwarded (trace (fst (worker_onmessage (DeliverFrame [] [5, 6, 7]) initial_state)))
       \<noteq> forwarded (trace initial_state) @ [[5, 6, 7]]
   \<and> g_audio_samples_buffered (fst (worker_onmessage (DeliverFrame [] [5, 6, 7]) initial_state))
       \<noteq> g_audio_samples_buffered initial_state + int (length [5, 6, 7 :: int])"
  by (simp add: handler_defs initial_state_def)

text \<open>
  C3, as the code has it.  A batch arriving with \<^verbatim>\<open>g_audio_samples_buffered >= 8192\<close> is
  dropped and the counter is unchanged, whatever its length.  The gate compares the
  counter alone with 8192: in a given state, either every batch is dropped or none is,
  so the length of the incoming batch takes no part in the decision.  When the counter
  is below 8192 and the audio node exists, the batch is forwarded and the counter grows
  by its length even when the counter plus that length reaches 8192: with the counter at
  8000, the audio node in place and a batch of length 300, the batch is forwarded and the
  counter becomes 8300.
\<close>

theorem audio_gate_threshold:
  "(8192 \<le> g_audio_samples_buffered s \<longrightarrow>
      forwarded (trace (fst (worker_onmessage (DeliverFrame image_buffer audio_buffer) s)))
        = forwarded (trace s)
      \<and> g_audio_samples_buffered (fst (worker_onmessage (DeliverFrame image_buffer audio_buffer) s))
        = g_audio_samples_buffered s)
   \<and> (g_audio_samples_buffered s < 8192
       \<and> 8192 \<le> g_audio_samples_buffered s + int (length audio_buffer)
       \<and> g_nes_audio_node s = Some node \<longrightarrow>
      forwarded (trace (fst (worker_onmessage (DeliverFrame image_buffer audio_buffer) s)))
        = forwarded (trace s) @ [audio_buffer]
      \<and> g_audio_samples_buffered (fst (worker_onmessage (DeliverFrame image_buffer audio_buffer) s))
        = g_audio_samples_buffered s + int (length audio_buffer))
   \<and> (g_audio_samples_buffered s = 8000 \<and> length audio_buffer = 300
       \<and> g_nes_audio_node s = Some node \<longrightarrow>
      forwarded (trace (fst (worker_onmessage (DeliverFrame image_buffer audio_buffer) s)))
        = forwarded (trace s) @ [audio_buffer]
      \<and> g_audio_samples_buffered (fst (worker_onmessage (DeliverFrame image_buffer audio_buffer) s))
        = 8300)
   \<and> ((forwarded (trace (fst (worker_onmessage (DeliverFrame image_buffer audio_buffer) s)))
          = forwarded (trace s))
        \<longleftrightarrow>
       (forwarded (trace (fst (worker_onmessage (DeliverFrame image_buffer other_buffer) s)))
          = forwarded (trace s)))"
  by (cases "g_nes_audio_node s") (simp_all add: handler_defs forwarded_append)

theorem audio_gate_threshold_witness:
  "(8192 \<le> g_audio_samples_buffered (initial_state\<lparr>g_audio_samples_buffered := 8192\<rparr>)
    \<and> forwarded (trace (fst (worker_onmessage (DeliverFrame [] [])
                                (initial_state\<lparr>g_audio_samples_buffered := 8192\<rparr>)))) = []
    \<and> g_audio_samples_buffered (fst (worker_onmessage (DeliverFrame [] [])
                                (initial_state\<lparr>g_audio_samples_buffered := 8192\<rparr>))) = 8192)
   \<and> (g_audio_samples_buffered (initial_state\<lparr>g_audio_samples_buffered := 8000,
                             g_nes_audio_node := Some AudioWorkletNode\<rparr>) = 8000
    \<and> 8192 \<le> g_audio_samples_buffered (initial_state\<lparr>g_audio_samples_buffered := 8000,
                             g_nes_audio_node := Some AudioWorkletNode\<rparr>)
               + int (length (replicate 300 (0::int)))
    \<and> length (replicate 300 (0::int)) = 300
    \<and> g_audio_samples_buffered
        (fst (worker_onmessage (DeliverFrame [] (replicate 300 0))
               (initial_state\<lparr>g_audio_samples_buffered := 8000,
                              g_nes_audio_node := Some AudioWorkletNode\<rparr>))) = 8300)"
  using audio_gate_threshold
          [where s = "initial_state\<lparr>g_audio_samples_buffered := 8192\<rparr>"
             and image_buffer = "[]" and audio_buffer = "[]" and other_buffer = "[1]"]
        audio_gate_threshold
          [where s = "initial_state\<lparr>g_audio_samples_buffered := 8000,
                                     g_nes_audio_node := Some AudioWorkletNode\<rparr>"
             and image_buffer = "[]" and audio_buffer = "replicate 300 0"
             and node = AudioWorkletNode and other_buffer = "[1]"]
  by (simp add: initial_state_def)

text \<open>
  With the counter at 8000, the audio node in place and a batch of length 300, the sum
  reaches 8192, and yet the batch is forwarded and the counter moves to 8300.
\<close>

theorem audio_gate_sum_counterexample:
  "8192 \<le> g_audio_samples_buffered
             (initial_state\<lparr>g_audio_samples_buffered := 8000,
                            g_nes_audio_node := Some AudioWorkletNode\<rparr>)
           + int (length (replicate 300 (0::int)))
   \<and> g_audio_samples_buffered
        (fst (worker_onmessage (DeliverFrame [] (replicate 300 0))
               (initial_state\<lparr>g_audio_samples_buffered := 8000,
                              g_nes_audio_node := Some AudioWorkletNode\<rparr>))) = 8300
   \<and> forwarded (trace
        (fst (worker_onmessage (DeliverFrame [] (replicate 300 0))
               (initial_state\<lparr>g_audio_samples_buffered := 8000,
                              g_nes_audio_node := Some AudioWorkletNode\<rparr>)))) = [replicate 300 0]
   \<and> g_audio_samples_buffered
        (fst (worker_onmessage (DeliverFrame [] (replicate 300 0))
               (initial_state\<lparr>g_audio_samples_buffered := 8000,
                              g_nes_audio_node := Some AudioWorkletNode\<rparr>)))
       \<noteq> g_audio_samples_buffered
           (initial_state\<lparr>g_audio_samples_buffered := 8000,
                          g_nes_audio_node := Some AudioWorkletNode\<rparr>)
   \<and> forwarded (trace
        (fst (worker_onmessage (DeliverFrame [] (replicate 300 0))
               (initial_state\<lparr>g_audio_samples_buffered := 8000,
                              g_nes_audio_node := Some AudioWorkletNode\<rparr>))))
       \<noteq> forwarded (trace
           (initial_state\<lparr>g_audio_samples_buffered := 8000,
                          g_nes_audio_node := Some AudioWorkletNode\<rparr>))"
  by (simp add: handler_defs initial_state_def)

text \<open>
  C4, as the code has it.  A \<^verbatim>\<open>samplesPlayed\<close> acknowledgment with count \<open>C\<close> subtracts
  exactly \<open>C\<close> from \<^verbatim>\<open>g_audio_samples_buffered\<close>.  There is no floor: the result is
  non-negative exactly when \<open>C\<close> does not exceed the counter, and negative otherwise.  From
  1500, an acknowledgment of 400 gives 1100.
\<close>

theorem samples_played_subtracts:
  "g_audio_samples_buffered (handle_audio_message (SamplesPlayed count) s)
     = g_audio_samples_buffered s - count
   \<and> (0 \<le> g_audio_samples_buffered (handle_audio_message (SamplesPlayed count) s)
        \<longleftrightarrow> count \<le> g_audio_samples_buffered s)
   \<and> (g_audio_samples_buffered s = 1500 \<and> count = 400 \<longrightarrow>
        g_audio_samples_buffered (handle_audio_message (SamplesPlayed count) s) = 1100)"
  by (simp add: handler_defs)

theorem samples_played_subtracts_witness:
  "g_audio_samples_buffered (initial_state\<lparr>g_audio_samples_buffered := 1500\<rparr>) = 1500
   \<and> g_audio_samples_buffered
       (handle_audio_message (SamplesPlayed 400) (initial_state\<lparr>g_audio_samples_buffered := 1500\<rparr>))
     = 1100"
  using samples_played_subtracts
          [where s = "initial_state\<lparr>g_audio_samples_buffered := 1500\<rparr>" and count = 400]
  by (simp add: initial_state_def)

text \<open>
  An acknowledgment larger than the counter takes it below zero: from 100, a count of 400
  gives \<open>-300\<close>.
\<close>

theorem samples_played_floor_counterexample:
  "g_audio_samples_buffered
     (handle_audio_message (SamplesPlayed 400) (initial_state\<lparr>g_audio_samples_buffered := 100\<rparr>))
   = - 300
   \<and> \<not> 0 \<le> g_audio_samples_buffered
           (handle_audio_message (SamplesPlayed 400)
              (initial_state\<lparr>g_audio_samples_buffered := 100\<rparr>))"
  by (simp add: handler_defs initial_state_def)

section \<open>Call channel\<close>

text \<open>
  C6, as the code has it.  When the reply to a pending call arrives and is a value with
  members (anything but \<^verbatim>\<open>undefined\<close> and \<^verbatim>\<open>null\<close>): if its \<^verbatim>\<open>error\<close> member is truthy, the
  call is rejected with that member as the reason; otherwise, also when an \<^verbatim>\<open>error\<close>
  member is present but falsy, the call is resolved with the \<^verbatim>\<open>result\<close> member.
\<close>

theorem rpc_reply_outcome:
  "calls s channel = Some Pending \<Longrightarrow>
   get_member data ''error'' = Inr error \<Longrightarrow>
   get_member data ''result'' = Inr result \<Longrightarrow>
   port1_onmessage channel data s
     = (s\<lparr>calls := (calls s)(channel \<mapsto> (if ToBoolean error then Rejected error else Resolved result)),
          trace := trace s @ [Settle channel]\<rparr>, None)"
  by (simp add: handler_defs)

theorem rpc_reply_outcome_witness:
  "calls (fst (rpc ''echo'' [] initial_state)) 0 = Some Pending
   \<and> calls (fst (port1_onmessage 0 (JSObject [(''error'', JSString ''no such function'')])
                   (fst (rpc ''echo'' [] initial_state)))) 0
       = Some (Rejected (JSString ''no such function''))
   \<and> calls (fst (port1_onmessage 0 (JSObject [(''result'', JSString ''Hello World!'')])
                   (fst (rpc ''echo'' [] initial_state)))) 0
       = Some (Resolved (JSString ''Hello World!''))"
  using rpc_reply_outcome
          [where s = "fst (rpc ''echo'' [] initial_state)" and channel = 0
             and data = "JSObject [(''error'', JSString ''no such function'')]"
             and error = "JSString ''no such function''" and result = JSUndefined]
        rpc_reply_outcome
          [where s = "fst (rpc ''echo'' [] initial_state)" and channel = 0
             and data = "JSObject [(''result'', JSString ''Hello World!'')]"
             and error = JSUndefined and result = "JSString ''Hello World!''"]
  by (simp add: rpc_def emit_def initial_state_def Let_def)

text \<open>
  A reply that carries an \<^verbatim>\<open>error\<close> member with the value 0 does not fail the call: the
  call is resolved with the \<^verbatim>\<open>result\<close> member.
\<close>

theorem rpc_falsy_error_counterexample:
  "map_of [(''error'', JSNumber 0), (''result'', JSNumber 7)] ''error'' = Some (JSNumber 0)
   \<and> calls (fst (rpc ''echo'' [] initial_state)) 0 = Some Pending
   \<and> calls (fst (port1_onmessage 0 (JSObject [(''error'', JSNumber 0), (''result'', JSNumber 7)])
                   (fst (rpc ''echo'' [] initial_state)))) 0
       = Some (Resolved (JSNumber 7))
   \<and> calls (fst (port1_onmessage 0 (JSObject [(''error'', JSNumber 0), (''result'', JSNumber 7)])
                   (fst (rpc ''echo'' [] initial_state)))) 0
       \<noteq> Some (Rejected (JSNumber 0))"
  by (simp add: handler_defs initial_state_def)










section \<open>Frame sink and render loop\<close>

text \<open>Events other than a render keep two runs in agreement off the sink.\<close>

lemma step_agree_no_render:
  "agree_off_sink s t \<Longrightarrow> ev \<noteq> AnimationFrame \<Longrightarrow> agree_off_sink (step ev s) (step ev t)"
  unfolding agree_off_sink_def
  by (cases ev)
     (auto simp add: handler_defs presented_append
           split: option.splits worker_message.splits audio_message.splits sum.splits
                  promise.splits)

lemma run_agree_no_render:
  "agree_off_sink s t \<Longrightarrow> AnimationFrame \<notin> set evs \<Longrightarrow>
   agree_off_sink (run evs s) (run evs t)"
proof (induction evs arbitrary: s t)
  case Nil
  then show ?case by simp
next
  case (Cons ev evs)
  have "agree_off_sink (step ev s) (step ev t)"
    using Cons.prems by (intro step_agree_no_render) auto
  moreover have "AnimationFrame \<notin> set evs" using Cons.prems by simp
  ultimately have "agree_off_sink (run evs (step ev s)) (run evs (step ev t))"
    by (rule Cons.IH)
  then show ?case by simp
qed

lemma step_agree_deliver:
  "agree_off_sink s t \<Longrightarrow>
   agree_off_sink (step (WorkerMessage (DeliverFrame f a)) s) (step (WorkerMessage (DeliverFrame f a)) t)
   \<and> g_game_pixels (step (WorkerMessage (DeliverFrame f a)) s)
       = g_game_pixels (step (WorkerMessage (DeliverFrame f a)) t)"
  unfolding agree_off_sink_def
  by (auto simp add: handler_defs presented_append split: option.splits)

lemma step_agree_same_sink:
  "agree_off_sink s t \<Longrightarrow> g_game_pixels s = g_game_pixels t \<Longrightarrow>
   agree_off_sink (step ev s) (step ev t) \<and> g_game_pixels (step ev s) = g_game_pixels (step ev t)"
  unfolding agree_off_sink_def
  by (cases ev)
     (auto simp add: handler_defs presented_append
           split: option.splits worker_message.splits audio_message.splits sum.splits
                  promise.splits)

lemma run_agree_same_sink:
  "agree_off_sink s t \<Longrightarrow> g_game_pixels s = g_game_pixels t \<Longrightarrow>
   agree_off_sink (run evs s) (run evs t)"
proof (induction evs arbitrary: s t)
  case Nil
  then show ?case by simp
next
  case (Cons ev evs)
  have "agree_off_sink (step ev s) (step ev t) \<and> g_game_pixels (step ev s) = g_game_pixels (step ev t)"
    using Cons.prems by (rule step_agree_same_sink)
  then have "agree_off_sink (run evs (step ev s)) (run evs (step ev t))"
    using Cons.IH by blast
  then show ?case by simp
qed

lemma overwritten_frame_unobservable:
  assumes "AnimationFrame \<notin> set mid"
  shows "presented (trace (run (WorkerMessage (DeliverFrame old_frame old_audio) # mid
                                  @ WorkerMessage (DeliverFrame new_frame new_audio) # rest) s))
         = presented (trace (run (WorkerMessage (DeliverFrame other_frame old_audio) # mid
                                  @ WorkerMessage (DeliverFrame new_frame new_audio) # rest) s))"
proof -
  let ?s1 = "step (WorkerMessage (DeliverFrame old_frame old_audio)) s"
  let ?t1 = "step (WorkerMessage (DeliverFrame other_frame old_audio)) s"
  let ?new = "WorkerMessage (DeliverFrame new_frame new_audio)"
  have "agree_off_sink ?s1 ?t1"
    unfolding agree_off_sink_def
    by (auto simp add: handler_defs presented_append split: option.splits)
  then have "agree_off_sink (run mid ?s1) (run mid ?t1)"
    using assms by (rule run_agree_no_render)
  then have d: "agree_off_sink (step ?new (run mid ?s1)) (step ?new (run mid ?t1))
     \<and> g_game_pixels (step ?new (run mid ?s1)) = g_game_pixels (step ?new (run mid ?t1))"
    by (rule step_agree_deliver)
  have "agree_off_sink (run rest (step ?new (run mid ?s1))) (run rest (step ?new (run mid ?t1)))"
    using d by (intro run_agree_same_sink) auto
  then show ?thesis
    by (simp add: run_append agree_off_sink_def)
qed

text \<open>
  After any run the sink is empty or holds the buffer of the latest delivery; if the run
  delivers nothing, a sink that is not empty still holds what it held before.
\<close>

lemma step_sink:
  "g_game_pixels (step ev s) = None
   \<or> (if delivered_frames [ev] = [] then g_game_pixels (step ev s) = g_game_pixels s
       else g_game_pixels (step ev s) = Some (last (delivered_frames [ev])))"
  by (cases ev)
     (auto simp add: handler_defs
           split: option.splits worker_message.splits audio_message.splits sum.splits
                  promise.splits)

lemma delivered_frames_Cons:
  "delivered_frames (ev # evs) = delivered_frames [ev] @ delivered_frames evs"
  by (cases "(ev # evs)" rule: delivered_frames.cases) simp_all

lemma run_sink:
  "g_game_pixels (run evs s) = None
   \<or> (if delivered_frames evs = [] then g_game_pixels (run evs s) = g_game_pixels s
       else g_game_pixels (run evs s) = Some (last (delivered_frames evs)))"
proof (induction evs arbitrary: s)
  case Nil
  show ?case by simp
next
  case (Cons ev evs)
  have split: "delivered_frames (ev # evs) = delivered_frames [ev] @ delivered_frames evs"
    by (rule delivered_frames_Cons)
  have tail: "g_game_pixels (run evs (step ev s)) = None
   \<or> (if delivered_frames evs = [] then g_game_pixels (run evs (step ev s)) = g_game_pixels (step ev s)
       else g_game_pixels (run evs (step ev s)) = Some (last (delivered_frames evs)))"
    by (rule Cons.IH)
  have head: "g_game_pixels (step ev s) = None
   \<or> (if delivered_frames [ev] = [] then g_game_pixels (step ev s) = g_game_pixels s
       else g_game_pixels (step ev s) = Some (last (delivered_frames [ev])))"
    by (rule step_sink)
  show ?case
  proof (cases "delivered_frames evs = []")
    case True
    with tail head split show ?thesis by (auto split: if_splits)
  next
    case False
    with tail split show ?thesis by simp
  qed
qed

text \<open>
  C9, as the code has it.  The frame sink is the single variable \<^verbatim>\<open>g_game_pixels\<close>: after
  any run from the initial state it is empty or holds exactly the buffer of the most
  recent delivery, so that no earlier delivery is still held.  A render-loop invocation
  that finds in the sink a frame of the fixed geometry (256 by 240 pixels of 4 bytes)
  presents it and clears the sink; one that finds a buffer of any other size presents
  nothing and leaves the whole state, the sink included, as it is; one that finds the
  sink empty presents nothing and changes no global: it only asks for the next animation
  frame.  A frame delivered on top of a frame not yet rendered replaces it without
  anything being presented, and the replaced frame is unobservable: if no render happens
  between the delivery of a frame and the next delivery, then whatever events surround
  them, the sequence of presented frames is the same as if any other buffer had been
  delivered in its place.
\<close>

theorem frame_sink_latest_wins:
  "(g_game_pixels (run evs initial_state) = None
    \<or> (delivered_frames evs \<noteq> []
        \<and> g_game_pixels (run evs initial_state) = Some (last (delivered_frames evs))))
   \<and> (g_game_pixels s = Some pixels \<and> length pixels = 4 * 256 * 240 \<longrightarrow>
        presented (trace (fst (renderLoop s))) = presented (trace s) @ [pixels]
        \<and> g_game_pixels (fst (renderLoop s)) = None)
   \<and> (g_game_pixels s = Some pixels \<and> length pixels \<noteq> 4 * 256 * 240 \<longrightarrow>
        renderLoop s = (s, Some DOMException))
   \<and> (g_game_pixels s = None \<longrightarrow> renderLoop s = (emit RequestAnimationFrame s, None))
   \<and> g_game_pixels (run [WorkerMessage (DeliverFrame old_frame old_audio),
                         WorkerMessage (DeliverFrame new_frame new_audio)] s)
        = Some new_frame
   \<and> presented (trace (run [WorkerMessage (DeliverFrame old_frame old_audio),
                             WorkerMessage (DeliverFrame new_frame new_audio)] s))
        = presented (trace s)
   \<and> (AnimationFrame \<notin> set mid \<longrightarrow>
        presented (trace (run (WorkerMessage (DeliverFrame old_frame old_audio) # mid
                                @ WorkerMessage (DeliverFrame new_frame new_audio) # rest) s))
        = presented (trace (run (WorkerMessage (DeliverFrame other_frame old_audio) # mid
                                  @ WorkerMessage (DeliverFrame new_frame new_audio) # rest) s)))"
proof (intro conjI impI)
  show "g_game_pixels (run evs initial_state) = None
    \<or> (delivered_frames evs \<noteq> []
        \<and> g_game_pixels (run evs initial_state) = Some (last (delivered_frames evs)))"
    using run_sink [of evs initial_state]
    by (auto simp add: initial_state_def split: if_splits)
next
  assume "g_game_pixels s = Some pixels \<and> length pixels = 4 * 256 * 240"
  then show "presented (trace (fst (renderLoop s))) = presented (trace s) @ [pixels]"
    and "g_game_pixels (fst (renderLoop s)) = None"
    by (simp_all add: handler_defs presented_append)
next
  assume "g_game_pixels s = Some pixels \<and> length pixels \<noteq> 4 * 256 * 240"
  then show "renderLoop s = (s, Some DOMException)"
    by (simp add: renderLoop_def)
next
  assume "g_game_pixels s = None"
  then show "renderLoop s = (emit RequestAnimationFrame s, None)"
    by (simp add: renderLoop_def)
next
  show "g_game_pixels (run [WorkerMessage (DeliverFrame old_frame old_audio),
                         WorkerMessage (DeliverFrame new_frame new_audio)] s)
        = Some new_frame"
    by (simp add: handler_defs split: option.splits)
next
  show "presented (trace (run [WorkerMessage (DeliverFrame old_frame old_audio),
                             WorkerMessage (DeliverFrame new_frame new_audio)] s))
        = presented (trace s)"
    by (simp add: handler_defs presented_append split: option.splits)
next
  assume "AnimationFrame \<notin> set mid"
  then show "presented (trace (run (WorkerMessage (DeliverFrame old_frame old_audio) # mid
                                @ WorkerMessage (DeliverFrame new_frame new_audio) # rest) s))
        = presented (trace (run (WorkerMessage (DeliverFrame other_frame old_audio) # mid
                                  @ WorkerMessage (DeliverFrame new_frame new_audio) # rest) s))"
    by (rule overwritten_frame_unobservable)
qed

theorem frame_sink_latest_wins_witness:
  "g_game_pixels (initial_state\<lparr>g_game_pixels := Some (replicate 245760 7)\<rparr>)
     = Some (replicate 245760 7)
   \<and> length (replicate 245760 (7::nat)) = 4 * 256 * 240
   \<and> presented (trace (fst (renderLoop (initial_state\<lparr>g_game_pixels := Some (replicate 245760 7)\<rparr>))))
     = [replicate 245760 7]
   \<and> g_game_pixels (initial_state\<lparr>g_game_pixels := Some [1, 2]\<rparr>) = Some [1, 2]
   \<and> length [1, 2 :: nat] \<noteq> 4 * 256 * 240
   \<and> renderLoop (initial_state\<lparr>g_game_pixels := Some [1, 2]\<rparr>)
     = (initial_state\<lparr>g_game_pixels := Some [1, 2]\<rparr>, Some DOMException)
   \<and> g_game_pixels initial_state = None
   \<and> renderLoop initial_state = (emit RequestAnimationFrame initial_state, None)
   \<and> delivered_frames [WorkerMessage (DeliverFrame [3] []), SchedulerTick,
                        WorkerMessage (DeliverFrame [4] [])] = [[3], [4]]
   \<and> g_game_pixels (run [WorkerMessage (DeliverFrame [3] []), SchedulerTick,
                         WorkerMessage (DeliverFrame [4] [])] initial_state) = Some [4]
   \<and> AnimationFrame \<notin> set [SchedulerTick]
   \<and> presented (trace (run (WorkerMessage (DeliverFrame (replicate 245760 1) []) # [SchedulerTick]
                             @ WorkerMessage (DeliverFrame (replicate 245760 2) []) # [AnimationFrame])
                            initial_state))
     = [replicate 245760 2]
   \<and> presented (trace (run (WorkerMessage (DeliverFrame (replicate 245760 3) []) # [SchedulerTick]
                             @ WorkerMessage (DeliverFrame (replicate 245760 2) []) # [AnimationFrame])
                            initial_state))
     = [replicate 245760 2]"
  using frame_sink_latest_wins
          [where s = "initial_state\<lparr>g_game_pixels := Some (replicate 245760 7)\<rparr>"
             and pixels = "replicate 245760 7" and evs = "[]"
             and mid = "[]" and rest = "[]" and old_frame = "[]" and new_frame = "[]"
             and other_frame = "[]" and old_audio = "[]" and new_audio = "[]"]
        frame_sink_latest_wins
          [where s = "initial_state\<lparr>g_game_pixels := Some [1, 2]\<rparr>"
             and pixels = "[1, 2]"
             and evs = "[WorkerMessage (DeliverFrame [3] []), SchedulerTick,
                         WorkerMessage (DeliverFrame [4] [])]"
             and mid = "[]" and rest = "[]" and old_frame = "[]" and new_frame = "[]"
             and other_frame = "[]" and old_audio = "[]" and new_audio = "[]"]
        frame_sink_latest_wins
          [where s = initial_state and pixels = "[]" and evs = "[]"
             and mid = "[SchedulerTick]" and rest = "[AnimationFrame]"
             and old_frame = "replicate 245760 1" and new_frame = "replicate 245760 2"
             and other_frame = "replicate 245760 3" and old_audio = "[]" and new_audio = "[]"]
  by (simp add: handler_defs initial_state_def)

text \<open>
  A held buffer is not always presented.  After the delivery of a two-byte buffer the
  sink holds it; the next render-loop invocation fails on it, presents nothing and does
  not clear the sink.
\<close>

theorem render_other_size_counterexample:
  "g_game_pixels (run [WorkerMessage (DeliverFrame [1, 2] [])] initial_state) = Some [1, 2]
   \<and> presented (trace (run [WorkerMessage (DeliverFrame [1, 2] []), AnimationFrame] initial_state))
       = []
   \<and> g_game_pixels (run [WorkerMessage (DeliverFrame [1, 2] []), AnimationFrame] initial_state)
       \<noteq> None"
  by (simp add: handler_defs initial_state_def)

end
